theory Spec2Isabelle
  imports Main
begin

section \<open>The card drawer component (src/App.js)\<close>

text \<open>
  The component is one React function component. Its \<open>useState\<close> cells and its two
  \<open>useRef\<close> cells are the fields of the record \<open>state\<close>; the browser's table of active
  timers and the log of the requests sent with \<open>fetch\<close> are two more fields, since the
  handlers act on them. Every handler is a function from the state before to the state
  after. An \<open>await\<close>ed request is a parameter: the outcome of \<open>fetch\<close> followed by
  \<open>response.json()\<close>. What the page shows is read off the state, and a render that
  throws unmounts the component.
\<close>

subsection \<open>JSON values as the handlers see them\<close>

text \<open>
  What \<open>response.json()\<close> can return, plus \<open>undefined\<close> (the value of a missing property).
  Numbers are modelled as integers.
\<close>

datatype jsval =
    JUndefined
  | JNull
  | JBool bool
  | JNum int
  | JStr string
  | JArr "jsval list"
  | JObj "(string \<times> jsval) list"

datatype js_error = TypeError

text \<open>The truthiness test of \<open>&&\<close>, \<open>!\<close> and \<open>if\<close>.\<close>

fun truthy :: "jsval \<Rightarrow> bool" where
  "truthy JUndefined = False"
| "truthy JNull = False"
| "truthy (JBool b) = b"
| "truthy (JNum n) = (n \<noteq> 0)"
| "truthy (JStr s) = (s \<noteq> [])"
| "truthy (JArr xs) = True"
| "truthy (JObj kvs) = True"

text \<open>
  Whether React accepts the value as a child of an element (the \<open>{remaining}\<close> of line
  156): text for a number or a string, nothing for a boolean, \<open>null\<close> or \<open>undefined\<close>, the
  elements in turn for an array. An object is refused: the render throws.
\<close>

fun renderable :: "jsval \<Rightarrow> bool" where
  "renderable (JObj kvs) = False"
| "renderable (JArr xs) = list_all renderable xs"
| "renderable v = True"

text \<open>
  Whether the value can be written as the text of an attribute (the \<open>src\<close> of line 153).
  The conversion to a string throws for an object that has a \<open>toString\<close> property of its
  own, which in a parsed answer is never a function; an array is joined from its elements.
\<close>

fun coercible :: "jsval \<Rightarrow> bool" where
  "coercible (JObj kvs) = (''toString'' \<notin> fst ` set kvs)"
| "coercible (JArr xs) = list_all coercible xs"
| "coercible v = True"

text \<open>
  Property access \<open>v.k\<close> and \<open>v[0]\<close> (the key \<open>''0''\<close>). Reading a property of \<open>null\<close> or
  \<open>undefined\<close> throws a TypeError. In a parsed object the last binding of a repeated key
  is the one kept. The handlers read only the keys \<open>deck_id\<close>, \<open>remaining\<close>, \<open>cards\<close>,
  \<open>image\<close>, \<open>length\<close> and the index \<open>0\<close>.
\<close>

definition field :: "(string \<times> jsval) list \<Rightarrow> string \<Rightarrow> jsval" where
  "field kvs k = (case map_of (rev kvs) k of None \<Rightarrow> JUndefined | Some v \<Rightarrow> v)"

fun get_prop :: "jsval \<Rightarrow> string \<Rightarrow> js_error + jsval" where
  "get_prop JUndefined k = Inl TypeError"
| "get_prop JNull k = Inl TypeError"
| "get_prop (JBool b) k = Inr JUndefined"
| "get_prop (JNum n) k = Inr JUndefined"
| "get_prop (JStr s) k =
     (if k = ''length'' then Inr (JNum (int (length s)))
      else if k = ''0'' then (case s of [] \<Rightarrow> Inr JUndefined | c # _ \<Rightarrow> Inr (JStr [c]))
      else Inr JUndefined)"
| "get_prop (JArr xs) k =
     (if k = ''length'' then Inr (JNum (int (length xs)))
      else if k = ''0'' then (case xs of [] \<Rightarrow> Inr JUndefined | x # _ \<Rightarrow> Inr x)
      else Inr JUndefined)"
| "get_prop (JObj kvs) k = Inr (field kvs k)"

text \<open>
  The comparison \<open>v > 0\<close>. On \<open>undefined\<close>, \<open>null\<close>, booleans and numbers it is decided
  here (\<open>undefined\<close> converts to NaN, \<open>null\<close> to 0). On a string, an array or an object
  the JavaScript engine converts the value first; that conversion is not code of the
  component, so its outcome is the parameter \<open>conv\<close>.
\<close>

type_synonym conversion = "jsval \<Rightarrow> js_error + bool"

fun gt_zero :: "conversion \<Rightarrow> jsval \<Rightarrow> js_error + bool" where
  "gt_zero conv JUndefined = Inr False"
| "gt_zero conv JNull = Inr False"
| "gt_zero conv (JBool b) = Inr b"
| "gt_zero conv (JNum n) = Inr (0 < n)"
| "gt_zero conv (JStr s) = conv (JStr s)"
| "gt_zero conv (JArr xs) = conv (JArr xs)"
| "gt_zero conv (JObj kvs) = conv (JObj kvs)"

subsection \<open>Timers, requests and the component state\<close>

text \<open>
  A timer handle is the positive integer that \<open>setInterval\<close> and \<open>setTimeout\<close> return, so
  a handle is always truthy and \<open>null\<close> (\<open>None\<close>) is the only falsy content of a ref.
  Both kinds of timer live in one table and either \<open>clear\<close> function removes an entry
  by its handle.

  A function the component creates closes over the \<open>const\<close> bindings of the render that
  created it; \<open>render\<close> holds those of them that the handlers read. The callback of the
  repeating timer is the \<open>drawCard\<close> of the render in which \<open>handleDraw\<close> ran.
\<close>

type_synonym timer_id = nat

record render =
  r_deckId :: jsval
  r_remaining :: jsval
  r_shuffleSpeed :: int

datatype callback = DrawCard render | HideError

record timer =
  t_id :: timer_id
  t_repeat :: bool
  t_delay :: nat
  t_callback :: callback

text \<open>A request names its endpoint; the deck identifier is the value put into the URL.\<close>

datatype request = NewDeck | DrawOne jsval | Shuffle jsval

text \<open>
  What the two awaited lines of a \<open>try\<close> block come to: \<open>Json v\<close> when the request was
  sent and its body parsed to \<open>v\<close>, \<open>Failed\<close> when building the URL, \<open>fetch\<close> or
  \<open>response.json()\<close> threw or rejected.
\<close>

datatype response = Failed | Json jsval

record state =
  deckId :: jsval
  remaining :: jsval
  cardImage :: jsval
  error :: "string option"
  errorMessageVisible :: bool
  isShuffling :: bool
  isDrawing :: bool
  shuffleSpeed :: int
  intervalRef :: "timer_id option"
  errorTimeoutRef :: "timer_id option"
  timers :: "timer list"
  next_timer :: timer_id
  requests :: "request list"
  unmounted :: bool

text \<open>The state of the first render (lines 12 to 21), before the effect has run.\<close>

definition initial :: state where
  "initial =
     \<lparr>deckId = JNull, remaining = JNum 0, cardImage = JNull, error = None,
      errorMessageVisible = False, isShuffling = False, isDrawing = False,
      shuffleSpeed = 1000, intervalRef = None, errorTimeoutRef = None,
      timers = [], next_timer = 1, requests = [], unmounted = False\<rparr>"

definition render_of :: "state \<Rightarrow> render" where
  "render_of s =
     \<lparr>r_deckId = deckId s, r_remaining = remaining s, r_shuffleSpeed = shuffleSpeed s\<rparr>"

text \<open>\<open>clearInterval(h)\<close> and \<open>clearTimeout(h)\<close>; with \<open>null\<close> nothing is removed.\<close>

definition without :: "timer_id option \<Rightarrow> timer list \<Rightarrow> timer list" where
  "without h ts = (case h of None \<Rightarrow> ts | Some i \<Rightarrow> filter (\<lambda>t. t_id t \<noteq> i) ts)"

definition clearTimer :: "timer_id option \<Rightarrow> state \<Rightarrow> state" where
  "clearTimer h s = s\<lparr>timers := without h (timers s)\<rparr>"

text \<open>\<open>setInterval(f, d)\<close> and \<open>setTimeout(f, d)\<close>: the new handle and the state after.\<close>

definition addTimer :: "bool \<Rightarrow> callback \<Rightarrow> nat \<Rightarrow> state \<Rightarrow> timer_id \<times> state" where
  "addTimer rep f d s =
     (next_timer s,
      s\<lparr>timers := timers s @ [\<lparr>t_id = next_timer s, t_repeat = rep, t_delay = d, t_callback = f\<rparr>],
        next_timer := Suc (next_timer s)\<rparr>)"

text \<open>The one-shot timer of lines 50 to 52, 72 to 74 and 83 to 85, under the handle \<open>h\<close>.\<close>

definition hide_timer :: "timer_id \<Rightarrow> timer" where
  "hide_timer h = \<lparr>t_id = h, t_repeat = False, t_delay = 3000, t_callback = HideError\<rparr>"

definition send :: "request \<Rightarrow> state \<Rightarrow> state" where
  "send q s = s\<lparr>requests := requests s @ [q]\<rparr>"

text \<open>
  The render (lines 134 to 160). Under a truthy \<open>deckId\<close> (line 140) it shows
  \<open>{remaining}\<close> (line 156), the only child that can be refused, and under a truthy
  \<open>cardImage\<close> (line 151) it writes the image into the \<open>src\<close> of line 153. The component has
  no error boundary, so a render that throws unmounts it for good: \<open>unmounted\<close> records
  that, and the page then shows nothing. The handlers of an unmounted component still
  run from the timers and the pending requests; the state cells of the record are then
  the values the setters were last called with, which no page shows.
\<close>

definition page_throws :: "state \<Rightarrow> bool" where
  "page_throws s =
     (truthy (deckId s) \<and>
      (\<not> renderable (remaining s) \<or> (truthy (cardImage s) \<and> \<not> coercible (cardImage s))))"

text \<open>
  React renders again after a state update. Only \<open>deckId\<close>, \<open>remaining\<close> and \<open>cardImage\<close>
  decide whether the render throws, so the render is part of the three updates that write
  them (lines 28 and 29, 61 and 62, 103 to 105).
\<close>

definition rerender :: "state \<Rightarrow> state" where
  "rerender s = (if page_throws s then s\<lparr>unmounted := True\<rparr> else s)"

text \<open>
  A state is settled when React has rendered it or has unmounted the component: every
  state of a run is (\<open>settled_run\<close>).
\<close>

definition settled :: "state \<Rightarrow> bool" where
  "settled s = (unmounted s \<or> \<not> page_throws s)"

text \<open>What the page shows: the banner of lines 137 to 139, the buttons of lines 140 to 150.\<close>

definition banner :: "state \<Rightarrow> string option" where
  "banner s =
     (if unmounted s \<or> page_throws s then None
      else if errorMessageVisible s then error s else None)"

definition controls_shown :: "state \<Rightarrow> bool" where
  "controls_shown s = (\<not> unmounted s \<and> \<not> page_throws s \<and> truthy (deckId s))"

definition live_intervals :: "state \<Rightarrow> timer list" where
  "live_intervals s = filter t_repeat (timers s)"

definition pending_timeouts :: "state \<Rightarrow> timer list" where
  "pending_timeouts s = filter (\<lambda>t. \<not> t_repeat t) (timers s)"

subsection \<open>fetchDeck (lines 24 to 34)\<close>

definition fetchDeck_then :: "response \<Rightarrow> state \<Rightarrow> state" where
  "fetchDeck_then resp s =
     (case resp of
        Failed \<Rightarrow> s\<lparr>error := Some ''Failed to fetch deck.''\<rparr>
      | Json data \<Rightarrow>
          (case get_prop data ''deck_id'' of
             Inl e \<Rightarrow> s\<lparr>error := Some ''Failed to fetch deck.''\<rparr>
           | Inr d \<Rightarrow>
               (case get_prop data ''remaining'' of
                  Inl e \<Rightarrow> s\<lparr>error := Some ''Failed to fetch deck.''\<rparr>
                | Inr r \<Rightarrow> rerender (s\<lparr>deckId := d, remaining := r\<rparr>))))"

definition fetchDeck :: "response \<Rightarrow> state \<Rightarrow> state" where
  "fetchDeck resp s = fetchDeck_then resp (send NewDeck s)"

subsection \<open>drawCard (lines 42 to 93)\<close>

text \<open>Lines 44 to 52: the branch taken when the closure's \<open>remaining\<close> is the number 0.\<close>

definition draw_exhausted :: "state \<Rightarrow> state" where
  "draw_exhausted s =
     (let s1 = s\<lparr>error := Some ''Error: no cards remaining!'',
                 errorMessageVisible := True, isDrawing := False\<rparr>;
          s2 = (clearTimer (intervalRef s1) s1)\<lparr>intervalRef := None\<rparr>;
          s3 = clearTimer (errorTimeoutRef s2) s2;
          (h, s4) = addTimer False HideError 3000 s3
      in s4\<lparr>errorTimeoutRef := Some h\<rparr>)"

text \<open>Lines 66 to 74: no \<open>setIsDrawing\<close> here.\<close>

definition draw_invalid :: "state \<Rightarrow> state" where
  "draw_invalid s =
     (let s1 = s\<lparr>error := Some ''Error: Invalid API response.'',
                 errorMessageVisible := True\<rparr>;
          s2 = (clearTimer (intervalRef s1) s1)\<lparr>intervalRef := None\<rparr>;
          s3 = clearTimer (errorTimeoutRef s2) s2;
          (h, s4) = addTimer False HideError 3000 s3
      in s4\<lparr>errorTimeoutRef := Some h\<rparr>)"

text \<open>Lines 76 to 85.\<close>

definition draw_empty :: "state \<Rightarrow> state" where
  "draw_empty s =
     (let s1 = s\<lparr>error := Some ''Error: No cards available.'',
                 errorMessageVisible := True, isDrawing := False\<rparr>;
          s2 = (clearTimer (intervalRef s1) s1)\<lparr>intervalRef := None\<rparr>;
          s3 = clearTimer (errorTimeoutRef s2) s2;
          (h, s4) = addTimer False HideError 3000 s3
      in s4\<lparr>errorTimeoutRef := Some h\<rparr>)"

text \<open>Lines 89 to 92.\<close>

definition draw_caught :: "state \<Rightarrow> state" where
  "draw_caught s = s\<lparr>error := Some ''Failed to draw card.''\<rparr>"

text \<open>
  Line 60, \<open>data && data.cards && data.cards.length > 0\<close>, with its short circuits: a
  falsy operand ends the test, so no property of \<open>null\<close> is read here.
\<close>

definition has_cards :: "conversion \<Rightarrow> jsval \<Rightarrow> js_error + bool" where
  "has_cards conv data =
     (if \<not> truthy data then Inr False
      else case get_prop data ''cards'' of
             Inl e \<Rightarrow> Inl e
           | Inr cards \<Rightarrow>
               (if \<not> truthy cards then Inr False
                else case get_prop cards ''length'' of
                       Inl e \<Rightarrow> Inl e
                     | Inr n \<Rightarrow> gt_zero conv n))"

text \<open>
  Lines 60 to 87, the body of the \<open>try\<close> after the response has been parsed. Every
  expression that can throw is evaluated before the first state update of its branch,
  so a throw leaves the state as it was and the \<open>catch\<close> block runs on it.
\<close>

definition draw_response :: "conversion \<Rightarrow> jsval \<Rightarrow> state \<Rightarrow> js_error + state" where
  "draw_response conv data s =
     (case has_cards conv data of
        Inl e \<Rightarrow> Inl e
      | Inr True \<Rightarrow>
          (case get_prop data ''cards'' of
             Inl e \<Rightarrow> Inl e
           | Inr cards \<Rightarrow>
               (case get_prop cards ''0'' of
                  Inl e \<Rightarrow> Inl e
                | Inr crd \<Rightarrow>
                    (case get_prop crd ''image'' of
                       Inl e \<Rightarrow> Inl e
                     | Inr img \<Rightarrow>
                         (case get_prop data ''remaining'' of
                            Inl e \<Rightarrow> Inl e
                          | Inr r \<Rightarrow>
                              Inr (rerender (s\<lparr>cardImage := img, remaining := r\<rparr>))))))
      | Inr False \<Rightarrow>
          (case get_prop data ''cards'' of
             Inl e \<Rightarrow> Inl e
           | Inr cards \<Rightarrow>
               (if \<not> truthy cards then Inr (draw_invalid s)
                else case get_prop cards ''length'' of
                       Inl e \<Rightarrow> Inl e
                     | Inr n \<Rightarrow> if n = JNum 0 then Inr (draw_empty s) else Inr s)))"

text \<open>The part of \<open>drawCard\<close> that runs when the request has settled.\<close>

definition drawCard_then :: "conversion \<Rightarrow> response \<Rightarrow> state \<Rightarrow> state" where
  "drawCard_then conv resp s =
     (case resp of
        Failed \<Rightarrow> draw_caught s
      | Json data \<Rightarrow>
          (case draw_response conv data s of
             Inl e \<Rightarrow> draw_caught s
           | Inr s' \<Rightarrow> s'))"

text \<open>
  \<open>drawCard\<close> of the render \<open>r\<close>: \<open>remaining\<close> and \<open>deckId\<close> are the closure's, the refs and
  the state updates are the component's.
\<close>

definition drawCard :: "conversion \<Rightarrow> render \<Rightarrow> response \<Rightarrow> state \<Rightarrow> state" where
  "drawCard conv r resp s =
     (if r_remaining r = JNum 0 then draw_exhausted s
      else drawCard_then conv resp (send (DrawOne (r_deckId r)) s))"

subsection \<open>shuffleDeck (lines 98 to 111)\<close>

definition shuffleDeck_start :: "render \<Rightarrow> state \<Rightarrow> state" where
  "shuffleDeck_start r s = send (Shuffle (r_deckId r)) (s\<lparr>isShuffling := True\<rparr>)"

definition shuffle_caught :: "state \<Rightarrow> state" where
  "shuffle_caught s = s\<lparr>error := Some ''Failed to shuffle deck.'', isShuffling := False\<rparr>"

definition shuffleDeck_then :: "response \<Rightarrow> state \<Rightarrow> state" where
  "shuffleDeck_then resp s =
     (case resp of
        Failed \<Rightarrow> shuffle_caught s
      | Json data \<Rightarrow>
          (case get_prop data ''remaining'' of
             Inl e \<Rightarrow> shuffle_caught s
           | Inr r \<Rightarrow>
               rerender (s\<lparr>remaining := r, cardImage := JNull, isShuffling := False\<rparr>)))"

definition shuffleDeck :: "render \<Rightarrow> response \<Rightarrow> state \<Rightarrow> state" where
  "shuffleDeck r resp s = shuffleDeck_then resp (shuffleDeck_start r s)"

subsection \<open>handleDraw (lines 116 to 125) and handleShuffleSpeed (lines 130 to 132)\<close>

definition handleDraw :: "render \<Rightarrow> state \<Rightarrow> state" where
  "handleDraw r s =
     (case intervalRef s of
        Some h \<Rightarrow> (clearTimer (Some h) s)\<lparr>intervalRef := None, isDrawing := False\<rparr>
      | None \<Rightarrow>
          (let (h, s1) = addTimer True (DrawCard r) 1000 s
           in s1\<lparr>intervalRef := Some h, isDrawing := True\<rparr>))"

definition handleShuffleSpeed :: "render \<Rightarrow> state \<Rightarrow> state" where
  "handleShuffleSpeed r s =
     s\<lparr>shuffleSpeed := (if r_shuffleSpeed r = 1000 then 500 else 1000)\<rparr>"

text \<open>
  A click runs the handler of the latest render, whose bindings are the current state.
\<close>

definition click_draw :: "state \<Rightarrow> state" where
  "click_draw s = handleDraw (render_of s) s"

definition click_speed :: "state \<Rightarrow> state" where
  "click_speed s = handleShuffleSpeed (render_of s) s"

definition click_shuffle :: "response \<Rightarrow> state \<Rightarrow> state" where
  "click_shuffle resp s = shuffleDeck (render_of s) resp s"

text \<open>
  The timers firing. A tick of the repeating timer \<open>h\<close> runs its callback, the
  \<open>drawCard\<close> it was started with; the hide timer is removed from the table when it
  fires and hides the banner (lines 50 to 52).
\<close>

definition tick :: "conversion \<Rightarrow> timer_id \<Rightarrow> response \<Rightarrow> state \<Rightarrow> state" where
  "tick conv h resp s =
     (case find (\<lambda>t. t_id t = h \<and> t_repeat t) (timers s) of
        Some t \<Rightarrow> (case t_callback t of DrawCard r \<Rightarrow> drawCard conv r resp s | HideError \<Rightarrow> s)
      | None \<Rightarrow> s)"

definition fire_hide :: "timer_id \<Rightarrow> state \<Rightarrow> state" where
  "fire_hide h s =
     (case find (\<lambda>t. t_id t = h \<and> \<not> t_repeat t) (timers s) of
        Some t \<Rightarrow> (clearTimer (Some h) s)\<lparr>errorMessageVisible := False\<rparr>
      | None \<Rightarrow> s)"

subsection \<open>The runs of the component\<close>

text \<open>
  \<open>drawCard\<close> up to its \<open>await\<close>: the whole of the first branch, or the request.
\<close>

definition drawCard_start :: "render \<Rightarrow> state \<Rightarrow> state" where
  "drawCard_start r s =
     (if r_remaining r = JNum 0 then draw_exhausted s else send (DrawOne (r_deckId r)) s)"

text \<open>
  What can happen to the mounted component: an answer arrives, the user clicks, a timer
  fires. A handler that awaits a request is two events, its start and the arrival of the
  answer, so that other events can fall in between. The buttons exist only while
  \<open>deckId\<close> is truthy (line 140) and the shuffle button is disabled while \<open>isShuffling\<close>
  (line 145). An answer event is not tied to a request of the log, so the runs below
  include those of the component.
\<close>

datatype event =
    DeckAnswer response
  | ClickDraw
  | ClickShuffle
  | ShuffleAnswer response
  | ClickSpeed
  | Tick timer_id
  | DrawAnswer response
  | HideFires timer_id

text \<open>The effect of line 36 has sent the request for a new deck.\<close>

definition mounted :: state where
  "mounted = send NewDeck initial"

fun step :: "conversion \<Rightarrow> state \<Rightarrow> event \<Rightarrow> state" where
  "step conv s (DeckAnswer resp) = fetchDeck_then resp s"
| "step conv s ClickDraw = (if controls_shown s then click_draw s else s)"
| "step conv s ClickShuffle =
     (if controls_shown s \<and> \<not> isShuffling s then shuffleDeck_start (render_of s) s else s)"
| "step conv s (ShuffleAnswer resp) = shuffleDeck_then resp s"
| "step conv s ClickSpeed = (if controls_shown s then click_speed s else s)"
| "step conv s (Tick h) =
     (case find (\<lambda>t. t_id t = h \<and> t_repeat t) (timers s) of
        Some t \<Rightarrow> (case t_callback t of DrawCard r \<Rightarrow> drawCard_start r s | HideError \<Rightarrow> s)
      | None \<Rightarrow> s)"
| "step conv s (DrawAnswer resp) = drawCard_then conv resp s"
| "step conv s (HideFires h) = fire_hide h s"

definition run :: "conversion \<Rightarrow> event list \<Rightarrow> state" where
  "run conv es = foldl (step conv) mounted es"

subsection \<open>The polling state and the timer table\<close>

text \<open>
  The invariant of the polling state: the handle of the repeating timer is set exactly
  when \<open>isDrawing\<close> is true.
\<close>

definition polling_inv :: "state \<Rightarrow> bool" where
  "polling_inv s = ((intervalRef s \<noteq> None) = isDrawing s)"

text \<open>
  The timer table agrees with the refs: the repeating timers alive are at most the one
  \<open>intervalRef\<close> holds, and the one-shot timers pending are at most the one
  \<open>errorTimeoutRef\<close> holds.
\<close>

definition only_held :: "timer_id option \<Rightarrow> timer list \<Rightarrow> bool" where
  "only_held h ts =
     (case h of
        None \<Rightarrow> ts = []
      | Some i \<Rightarrow> length ts \<le> 1 \<and> list_all (\<lambda>t. t_id t = i) ts)"

definition intervals_ok :: "state \<Rightarrow> bool" where
  "intervals_ok s = only_held (intervalRef s) (live_intervals s)"

definition timeouts_ok :: "state \<Rightarrow> bool" where
  "timeouts_ok s = only_held (errorTimeoutRef s) (pending_timeouts s)"

text \<open>The polling state as the page and the ref show it: handle present, flag.\<close>

definition polling_state :: "state \<Rightarrow> bool \<times> bool" where
  "polling_state s = (intervalRef s \<noteq> None, isDrawing s)"

text \<open>
  The two delays the source passes to its timers: 1000 to \<open>setInterval\<close> (line 122) and
  3000 to \<open>setTimeout\<close> (lines 52, 74 and 85).
\<close>

definition source_delay :: "timer \<Rightarrow> bool" where
  "source_delay t = (t_delay t = (if t_repeat t then 1000 else 3000))"

subsection \<open>A session used in the examples\<close>

text \<open>
  The answers of the deck service: a new deck of 52 cards, a draw of one card, a draw
  from an empty deck, and an object without the card list.
\<close>

definition new_deck :: jsval where
  "new_deck =
     JObj [(''success'', JBool True), (''deck_id'', JStr ''3p40paa87x90''),
           (''remaining'', JNum 52), (''shuffled'', JBool True)]"

definition one_card :: jsval where
  "one_card =
     JObj [(''success'', JBool True), (''deck_id'', JStr ''3p40paa87x90''),
           (''cards'', JArr [JObj [(''code'', JStr ''6H''), (''image'', JStr ''6H.png'')]]),
           (''remaining'', JNum 51)]"

definition no_card :: jsval where
  "no_card =
     JObj [(''success'', JBool False), (''deck_id'', JStr ''3p40paa87x90''),
           (''cards'', JArr []), (''remaining'', JNum 0)]"

definition no_list :: jsval where
  "no_list = JObj [(''success'', JBool False), (''error'', JStr ''Deck ID does not exist.'')]"

definition last_card :: jsval where
  "last_card =
     JObj [(''success'', JBool True), (''deck_id'', JStr ''3p40paa87x90''),
           (''cards'', JArr [JObj [(''code'', JStr ''KS''), (''image'', JStr ''KS.png'')]]),
           (''remaining'', JNum 0)]"

definition no_conv :: conversion where
  "no_conv v = Inr False"

text \<open>The deck has arrived; then the user has pressed the start button.\<close>

definition ready :: state where
  "ready = fetchDeck (Json new_deck) initial"

definition drawing :: state where
  "drawing = click_draw ready"

text \<open>The timer has ticked and the answer held the last card of the deck.\<close>

definition spent :: state where
  "spent = tick no_conv 1 (Json last_card) drawing"

text \<open>The timer has ticked and the answer held no card list.\<close>

definition stuck :: state where
  "stuck = tick no_conv 1 (Json no_list) drawing"

section \<open>Lemmas on the handlers\<close>

text \<open>
  The definitions that a run on a concrete session unfolds.
\<close>

lemmas run_defs = fetchDeck_def fetchDeck_then_def send_def initial_def click_draw_def handleDraw_def
  addTimer_def clearTimer_def without_def render_of_def new_deck_def one_card_def no_card_def no_list_def
  last_card_def hide_timer_def tick_def fire_hide_def spent_def stuck_def
  field_def ready_def drawing_def drawCard_def drawCard_then_def draw_response_def has_cards_def
  draw_invalid_def draw_empty_def draw_exhausted_def draw_caught_def no_conv_def
  shuffleDeck_def shuffleDeck_start_def shuffleDeck_then_def shuffle_caught_def click_shuffle_def
  click_speed_def handleShuffleSpeed_def
  banner_def rerender_def page_throws_def controls_shown_def settled_def polling_inv_def polling_state_def live_intervals_def pending_timeouts_def
  intervals_ok_def timeouts_ok_def only_held_def

subsection \<open>The three stopping branches of drawCard, written out\<close>

lemma draw_exhausted_eq:
  "draw_exhausted s =
     s\<lparr>error := Some ''Error: no cards remaining!'', errorMessageVisible := True,
       isDrawing := False, intervalRef := None, errorTimeoutRef := Some (next_timer s),
       timers := without (errorTimeoutRef s) (without (intervalRef s) (timers s))
                   @ [hide_timer (next_timer s)],
       next_timer := Suc (next_timer s)\<rparr>"
  by (simp add: draw_exhausted_def clearTimer_def addTimer_def hide_timer_def Let_def)

lemma draw_invalid_eq:
  "draw_invalid s =
     s\<lparr>error := Some ''Error: Invalid API response.'', errorMessageVisible := True,
       intervalRef := None, errorTimeoutRef := Some (next_timer s),
       timers := without (errorTimeoutRef s) (without (intervalRef s) (timers s))
                   @ [hide_timer (next_timer s)],
       next_timer := Suc (next_timer s)\<rparr>"
  by (simp add: draw_invalid_def clearTimer_def addTimer_def hide_timer_def Let_def)

lemma draw_empty_eq:
  "draw_empty s =
     s\<lparr>error := Some ''Error: No cards available.'', errorMessageVisible := True,
       isDrawing := False, intervalRef := None, errorTimeoutRef := Some (next_timer s),
       timers := without (errorTimeoutRef s) (without (intervalRef s) (timers s))
                   @ [hide_timer (next_timer s)],
       next_timer := Suc (next_timer s)\<rparr>"
  by (simp add: draw_empty_def clearTimer_def addTimer_def hide_timer_def Let_def)

lemma filter_without_commute: "filter P (without h ts) = without h (filter P ts)"
  by (cases h) (auto simp: without_def intro: filter_cong)

lemma rerender_fields [simp]:
  "deckId (rerender s) = deckId s"
  "remaining (rerender s) = remaining s"
  "cardImage (rerender s) = cardImage s"
  "error (rerender s) = error s"
  "errorMessageVisible (rerender s) = errorMessageVisible s"
  "isShuffling (rerender s) = isShuffling s"
  "isDrawing (rerender s) = isDrawing s"
  "shuffleSpeed (rerender s) = shuffleSpeed s"
  "intervalRef (rerender s) = intervalRef s"
  "errorTimeoutRef (rerender s) = errorTimeoutRef s"
  "timers (rerender s) = timers s"
  "next_timer (rerender s) = next_timer s"
  "requests (rerender s) = requests s"
  "unmounted (rerender s) = (unmounted s \<or> page_throws s)"
  by (simp_all add: rerender_def)

lemma rerender_kept [simp]:
  "page_throws (rerender s) = page_throws s"
  "intervals_ok (rerender s) = intervals_ok s"
  "timeouts_ok (rerender s) = timeouts_ok s"
  "polling_inv (rerender s) = polling_inv s"
  "live_intervals (rerender s) = live_intervals s"
  "pending_timeouts (rerender s) = pending_timeouts s"
  by (simp_all add: page_throws_def intervals_ok_def timeouts_ok_def polling_inv_def
      live_intervals_def pending_timeouts_def)

lemma rerender_id: "\<not> page_throws s \<Longrightarrow> rerender s = s"
  by (simp add: rerender_def)

lemma settled_rerender: "settled (rerender s)"
  by (simp add: settled_def)

lemma fire_hide_banner:
  "hide_timer h \<in> set (timers s) \<Longrightarrow> banner (fire_hide h s) = None"
proof -
  assume a: "hide_timer h \<in> set (timers s)"
  have "\<exists>t\<in>set (timers s). t_id t = h \<and> \<not> t_repeat t"
    using a by (auto simp: hide_timer_def intro!: bexI[of _ "hide_timer h"])
  then obtain t where "find (\<lambda>t. t_id t = h \<and> \<not> t_repeat t) (timers s) = Some t"
    by (cases "find (\<lambda>t. t_id t = h \<and> \<not> t_repeat t) (timers s)") (auto simp: find_None_iff)
  then show ?thesis by (simp add: fire_hide_def banner_def clearTimer_def)
qed

text \<open>
  What lines 44 to 53 do, for the \<open>drawCard\<close> of a render whose \<open>remaining\<close> is 0: no
  request, the handle and the flag cleared, the message shown, the hide timer of 3000 ms
  started under a new handle after the old one was cleared, and the banner gone once
  that timer fires.
\<close>

lemma exhausted_branch:
  assumes "r_remaining r = JNum 0"
  shows "let s' = drawCard conv r resp s in
           requests s' = requests s \<and>
           intervalRef s' = None \<and> isDrawing s' = False \<and>
           error s' = Some ''Error: no cards remaining!'' \<and> errorMessageVisible s' \<and>
           errorTimeoutRef s' = Some (next_timer s) \<and>
           timers s' = without (errorTimeoutRef s) (without (intervalRef s) (timers s))
                         @ [hide_timer (next_timer s)] \<and>
           live_intervals s' =
             without (errorTimeoutRef s) (without (intervalRef s) (live_intervals s)) \<and>
           banner (fire_hide (next_timer s) s') = None"
proof -
  have d: "drawCard conv r resp s = draw_exhausted s"
    using assms by (simp add: drawCard_def)
  have h: "hide_timer (next_timer s) \<in> set (timers (draw_exhausted s))"
    by (simp add: draw_exhausted_eq)
  show ?thesis
    unfolding Let_def d using fire_hide_banner[OF h]
    by (simp add: draw_exhausted_eq live_intervals_def filter_without_commute
        hide_timer_def)
qed

lemma draw_success_eq:
  assumes "r_remaining r \<noteq> JNum 0" and "field kvs ''cards'' = JArr (JObj c # cs)"
  shows "drawCard conv r (Json (JObj kvs)) s =
           rerender (s\<lparr>requests := requests s @ [DrawOne (r_deckId r)],
                       cardImage := field c ''image'', remaining := field kvs ''remaining''\<rparr>)"
  using assms
  by (simp add: drawCard_def drawCard_then_def draw_response_def has_cards_def send_def)

lemma draw_null_card:
  assumes "r_remaining r \<noteq> JNum 0" and "field kvs ''cards'' = JArr (JNull # cs)"
  shows "drawCard conv r (Json (JObj kvs)) s = draw_caught (send (DrawOne (r_deckId r)) s)"
  using assms
  by (simp add: drawCard_def drawCard_then_def draw_response_def has_cards_def)

lemma draw_success_unmounts:
  assumes "r_remaining r \<noteq> JNum 0" and "field kvs ''cards'' = JArr (JObj c # cs)"
    and "field kvs ''remaining'' = JObj kv" and "truthy (deckId s)"
  shows "unmounted (drawCard conv r (Json (JObj kvs)) s) \<and>
         banner (drawCard conv r (Json (JObj kvs)) s) = None \<and>
         \<not> controls_shown (drawCard conv r (Json (JObj kvs)) s)"
  using assms(3,4)
  by (simp add: draw_success_eq [OF assms(1,2)] banner_def controls_shown_def page_throws_def)

subsection \<open>The toggle and the timer table\<close>

lemma click_draw_eq:
  "click_draw s =
     (case intervalRef s of
        Some h \<Rightarrow> s\<lparr>timers := without (Some h) (timers s), intervalRef := None, isDrawing := False\<rparr>
      | None \<Rightarrow>
          s\<lparr>timers := timers s @ [\<lparr>t_id = next_timer s, t_repeat = True, t_delay = 1000,
                                       t_callback = DrawCard (render_of s)\<rparr>],
            next_timer := Suc (next_timer s), intervalRef := Some (next_timer s),
            isDrawing := True\<rparr>)"
  by (simp add: click_draw_def handleDraw_def clearTimer_def addTimer_def split: option.splits)

lemma filter_without_held:
  "list_all (\<lambda>t. t_id t = i) (filter P ts) \<Longrightarrow> filter P (without (Some i) ts) = []"
  by (induction ts) (auto simp: without_def)

lemma only_held_without: "only_held h ts \<Longrightarrow> without h ts = []"
  by (cases h) (auto simp: only_held_def without_def list_all_iff filter_empty_conv)

lemma only_held_filter: "only_held h ts \<Longrightarrow> only_held h (filter P ts)"
  by (cases h) (auto simp: only_held_def list_all_iff intro: le_trans[OF length_filter_le])

lemma only_held_without_any: "only_held h ts \<Longrightarrow> only_held h (without j ts)"
  by (cases j) (simp_all add: without_def only_held_filter)

lemma only_held_length: "only_held h ts \<Longrightarrow> length ts \<le> 1"
  by (cases h) (auto simp: only_held_def)

lemma intervals_ok_click_draw: "intervals_ok s \<Longrightarrow> intervals_ok (click_draw s)"
proof (cases "intervalRef s")
  case None
  assume "intervals_ok s"
  with None show ?thesis
    by (simp add: click_draw_eq intervals_ok_def live_intervals_def only_held_def)
next
  case (Some h)
  assume "intervals_ok s"
  with Some have "filter t_repeat (without (Some h) (timers s)) = []"
    by (simp add: intervals_ok_def live_intervals_def only_held_def filter_without_held)
  with Some show ?thesis
    by (simp add: click_draw_eq intervals_ok_def live_intervals_def only_held_def)
qed

lemma intervals_ok_toggles: "intervals_ok s \<Longrightarrow> intervals_ok ((click_draw ^^ n) s)"
  by (induction n) (simp_all add: intervals_ok_click_draw)

subsection \<open>Every outcome of drawCard; what each handler keeps\<close>

lemma drawCard_tests_its_render:
  "drawCard conv r resp s =
     (if r_remaining r = JNum 0 then draw_exhausted s
      else drawCard_then conv resp (send (DrawOne (r_deckId r)) s))"
  by (simp add: drawCard_def)

lemma drawCard_then_no_list:
  "field kvs ''cards'' = JUndefined \<Longrightarrow> drawCard_then conv (Json (JObj kvs)) s = draw_invalid s"
  by (simp add: drawCard_then_def draw_response_def has_cards_def)

lemma drawCard_then_empty_list:
  "field kvs ''cards'' = JArr [] \<Longrightarrow> drawCard_then conv (Json (JObj kvs)) s = draw_empty s"
  by (simp add: drawCard_then_def draw_response_def has_cards_def)

lemma drawCard_then_failed: "drawCard_then conv Failed s = draw_caught s"
  by (simp add: drawCard_then_def)

lemma drawCard_then_null: "drawCard_then conv (Json JNull) s = draw_caught s"
  by (simp add: drawCard_then_def draw_response_def has_cards_def)

lemma draw_response_cases:
  "draw_response conv data s = Inr s' \<Longrightarrow>
     s' = draw_invalid s \<or> s' = draw_empty s \<or> s' = s \<or>
     (\<exists>img rem. s' = rerender (s\<lparr>cardImage := img, remaining := rem\<rparr>))"
  by (auto simp: draw_response_def split: sum.splits bool.splits if_splits)

lemma drawCard_then_cases:
  "drawCard_then conv resp s = draw_caught s \<or>
   drawCard_then conv resp s = draw_invalid s \<or>
   drawCard_then conv resp s = draw_empty s \<or>
   drawCard_then conv resp s = s \<or>
   (\<exists>img rem. drawCard_then conv resp s = rerender (s\<lparr>cardImage := img, remaining := rem\<rparr>))"
proof (cases resp)
  case Failed
  then show ?thesis by (simp add: drawCard_then_def)
next
  case (Json data)
  show ?thesis
  proof (cases "draw_response conv data s")
    case (Inl e)
    with Json show ?thesis by (simp add: drawCard_then_def)
  next
    case (Inr s')
    from draw_response_cases [OF Inr] Json Inr show ?thesis
      by (auto simp: drawCard_then_def)
  qed
qed

lemma stopped_timers:
  assumes "only_held i (filter t_repeat ts)" and "only_held e (filter (\<lambda>t. \<not> t_repeat t) ts)"
  shows "filter t_repeat (without e (without i ts) @ [hide_timer n]) = []"
    and "filter (\<lambda>t. \<not> t_repeat t) (without e (without i ts) @ [hide_timer n]) = [hide_timer n]"
proof -
  have "without i (filter t_repeat ts) = []"
    using assms(1) by (rule only_held_without)
  then show "filter t_repeat (without e (without i ts) @ [hide_timer n]) = []"
    by (simp add: filter_without_commute hide_timer_def) (simp add: without_def split: option.splits)
  have "without e (filter (\<lambda>t. \<not> t_repeat t) ts) = []"
    using assms(2) by (rule only_held_without)
  then have "without e (without i (filter (\<lambda>t. \<not> t_repeat t) ts)) = []"
    by (cases e; cases i) (auto simp: without_def filter_empty_conv)
  then show "filter (\<lambda>t. \<not> t_repeat t) (without e (without i ts) @ [hide_timer n]) = [hide_timer n]"
    by (simp add: filter_without_commute hide_timer_def)
qed

lemma timers_ok_stop:
  assumes "intervals_ok s" and "timeouts_ok s"
  shows "live_intervals (draw_exhausted s) = [] \<and> pending_timeouts (draw_exhausted s) = [hide_timer (next_timer s)]"
    and "live_intervals (draw_invalid s) = [] \<and> pending_timeouts (draw_invalid s) = [hide_timer (next_timer s)]"
    and "live_intervals (draw_empty s) = [] \<and> pending_timeouts (draw_empty s) = [hide_timer (next_timer s)]"
  using stopped_timers [of "intervalRef s" "timers s" "errorTimeoutRef s" "next_timer s"] assms
  by (simp_all add: intervals_ok_def timeouts_ok_def live_intervals_def pending_timeouts_def
      draw_exhausted_eq draw_invalid_eq draw_empty_eq)

lemma timers_ok_stop_kept:
  assumes "intervals_ok s" and "timeouts_ok s"
  shows "intervals_ok (draw_exhausted s) \<and> timeouts_ok (draw_exhausted s)"
    and "intervals_ok (draw_invalid s) \<and> timeouts_ok (draw_invalid s)"
    and "intervals_ok (draw_empty s) \<and> timeouts_ok (draw_empty s)"
  using timers_ok_stop [OF assms]
  by (simp_all add: intervals_ok_def timeouts_ok_def only_held_def hide_timer_def)
     (simp_all add: draw_exhausted_eq draw_invalid_eq draw_empty_eq)

lemma timers_ok_send:
  "intervals_ok (send q s) = intervals_ok s" "timeouts_ok (send q s) = timeouts_ok s"
  by (simp_all add: send_def intervals_ok_def timeouts_ok_def live_intervals_def pending_timeouts_def)

lemma timers_ok_drawCard_then:
  assumes "intervals_ok s" and "timeouts_ok s"
  shows "intervals_ok (drawCard_then conv resp s) \<and> timeouts_ok (drawCard_then conv resp s)"
  using drawCard_then_cases [of conv resp s] timers_ok_stop_kept [OF assms] assms
  by (auto simp: draw_caught_def intervals_ok_def timeouts_ok_def live_intervals_def pending_timeouts_def)

lemma timers_ok_drawCard:
  assumes "intervals_ok s" and "timeouts_ok s"
  shows "intervals_ok (drawCard conv r resp s) \<and> timeouts_ok (drawCard conv r resp s)"
  using timers_ok_stop_kept(1) [OF assms] timers_ok_drawCard_then [of "send (DrawOne (r_deckId r)) s"] assms
  by (simp add: drawCard_def timers_ok_send)

lemma timers_ok_tick:
  assumes "intervals_ok s" and "timeouts_ok s"
  shows "intervals_ok (tick conv h resp s) \<and> timeouts_ok (tick conv h resp s)"
  using timers_ok_drawCard [OF assms] assms
  by (simp add: tick_def split: option.splits callback.splits)

lemma timeouts_ok_click_draw: "timeouts_ok s \<Longrightarrow> timeouts_ok (click_draw s)"
  by (cases "intervalRef s")
     (simp_all add: click_draw_eq timeouts_ok_def pending_timeouts_def filter_without_commute
        only_held_without_any)

lemma timers_ok_fire_hide:
  assumes "intervals_ok s" and "timeouts_ok s"
  shows "intervals_ok (fire_hide h s) \<and> timeouts_ok (fire_hide h s)"
  using assms
  by (simp add: fire_hide_def clearTimer_def intervals_ok_def timeouts_ok_def live_intervals_def
      pending_timeouts_def filter_without_commute only_held_without_any split: option.splits)

lemma timers_ok_others:
  "intervals_ok (fetchDeck resp s) = intervals_ok s" "timeouts_ok (fetchDeck resp s) = timeouts_ok s"
  "intervals_ok (shuffleDeck r resp s) = intervals_ok s" "timeouts_ok (shuffleDeck r resp s) = timeouts_ok s"
  "intervals_ok (click_speed s) = intervals_ok s" "timeouts_ok (click_speed s) = timeouts_ok s"
  by (simp_all add: fetchDeck_def fetchDeck_then_def shuffleDeck_def shuffleDeck_start_def
      shuffleDeck_then_def shuffle_caught_def click_speed_def handleShuffleSpeed_def send_def
      intervals_ok_def timeouts_ok_def live_intervals_def pending_timeouts_def
      split: response.splits sum.splits)

lemma timers_ok_initial: "intervals_ok initial \<and> timeouts_ok initial"
  by (simp add: initial_def intervals_ok_def timeouts_ok_def live_intervals_def
      pending_timeouts_def only_held_def)

lemma polling_inv_kept:
  "polling_inv initial"
  "polling_inv (click_draw s)"
  "polling_inv (draw_exhausted s)"
  "polling_inv (draw_empty s)"
  "polling_inv (draw_invalid s) = (\<not> isDrawing s)"
  "polling_inv (draw_caught s) = polling_inv s"
  "polling_inv (send q s) = polling_inv s"
  "polling_inv (s\<lparr>cardImage := img, remaining := rem\<rparr>) = polling_inv s"
  "polling_inv (fetchDeck resp s) = polling_inv s"
  "polling_inv (shuffleDeck r resp s) = polling_inv s"
  "polling_inv (click_speed s) = polling_inv s"
  "polling_inv (fire_hide h s) = polling_inv s"
  by (simp_all add: polling_inv_def initial_def click_draw_eq draw_exhausted_eq draw_empty_eq
      draw_invalid_eq draw_caught_def send_def fetchDeck_def fetchDeck_then_def shuffleDeck_def
      shuffleDeck_start_def shuffleDeck_then_def shuffle_caught_def click_speed_def
      handleShuffleSpeed_def fire_hide_def clearTimer_def
      split: option.splits response.splits sum.splits)

lemma shuffle_busy_flag:
  "isShuffling (shuffleDeck_start r s) = True"
  "requests (shuffleDeck_start r s) = requests s @ [Shuffle (r_deckId r)]"
  "isShuffling (shuffleDeck_then resp s) = False"
  "shuffleDeck_then (Json (JObj kvs)) s =
     rerender (s\<lparr>remaining := field kvs ''remaining'', cardImage := JNull, isShuffling := False\<rparr>)"
  "shuffleDeck_then Failed s = s\<lparr>error := Some ''Failed to shuffle deck.'', isShuffling := False\<rparr>"
  by (simp_all add: shuffleDeck_start_def shuffleDeck_then_def shuffle_caught_def send_def
      split: response.splits sum.splits)

lemma shuffleSpeed_only_toggled:
  "shuffleSpeed initial = 1000"
  "shuffleSpeed (fetchDeck resp s) = shuffleSpeed s"
  "shuffleSpeed (shuffleDeck r resp s) = shuffleSpeed s"
  "shuffleSpeed (click_draw s) = shuffleSpeed s"
  "shuffleSpeed (fire_hide h s) = shuffleSpeed s"
  by (simp_all add: initial_def fetchDeck_def fetchDeck_then_def shuffleDeck_def
      shuffleDeck_start_def shuffleDeck_then_def shuffle_caught_def send_def click_draw_eq
      fire_hide_def clearTimer_def split: option.splits response.splits sum.splits)

lemma shuffleSpeed_drawCard: "shuffleSpeed (drawCard conv r resp s) = shuffleSpeed s"
  using drawCard_then_cases [of conv resp "send (DrawOne (r_deckId r)) s"]
  by (auto simp: drawCard_def draw_exhausted_eq draw_invalid_eq draw_empty_eq draw_caught_def send_def)

subsection \<open>What holds in every run\<close>

lemma drawCard_split:
  "drawCard conv r resp s =
     (if r_remaining r = JNum 0 then drawCard_start r s
      else drawCard_then conv resp (drawCard_start r s))"
  by (simp add: drawCard_def drawCard_start_def)

lemma run_snoc: "run conv (es @ [e]) = step conv (run conv es) e"
  by (simp add: run_def)

lemma run_nil: "run conv [] = mounted"
  by (simp add: run_def)

lemma timers_ok_step:
  assumes "intervals_ok s" and "timeouts_ok s"
  shows "intervals_ok (step conv s e) \<and> timeouts_ok (step conv s e)"
proof (cases e)
  case (DeckAnswer resp)
  with assms show ?thesis
    by (simp add: fetchDeck_then_def intervals_ok_def timeouts_ok_def live_intervals_def
        pending_timeouts_def split: response.splits sum.splits)
next
  case ClickDraw
  with assms show ?thesis
    by (simp add: intervals_ok_click_draw timeouts_ok_click_draw)
next
  case ClickShuffle
  with assms show ?thesis
    by (simp add: shuffleDeck_start_def send_def intervals_ok_def timeouts_ok_def
        live_intervals_def pending_timeouts_def)
next
  case (ShuffleAnswer resp)
  with assms show ?thesis
    by (simp add: shuffleDeck_then_def shuffle_caught_def intervals_ok_def timeouts_ok_def
        live_intervals_def pending_timeouts_def split: response.splits sum.splits)
next
  case ClickSpeed
  with assms show ?thesis
    by (simp add: timers_ok_others)
next
  case (Tick h)
  with assms timers_ok_stop_kept(1) [OF assms] show ?thesis
    by (simp add: drawCard_start_def timers_ok_send split: option.splits callback.splits)
next
  case (DrawAnswer resp)
  with timers_ok_drawCard_then [OF assms] show ?thesis
    by simp
next
  case (HideFires h)
  with timers_ok_fire_hide [OF assms] show ?thesis
    by simp
qed

lemma timers_ok_run: "intervals_ok (run conv es) \<and> timeouts_ok (run conv es)"
proof (induction es rule: rev_induct)
  case Nil
  show ?case
    using timers_ok_initial by (simp add: run_nil mounted_def timers_ok_send)
next
  case (snoc e es)
  then show ?case
    by (simp add: run_snoc timers_ok_step)
qed

lemma shuffleSpeed_step:
  "shuffleSpeed (step conv s e) =
     (if e = ClickSpeed \<and> controls_shown s
      then (if shuffleSpeed s = 1000 then 500 else 1000) else shuffleSpeed s)"
proof (cases e)
  case (DrawAnswer resp)
  then show ?thesis
    using drawCard_then_cases [of conv resp s]
    by (auto simp: draw_invalid_eq draw_empty_eq draw_caught_def)
qed (simp_all add: fetchDeck_then_def click_draw_eq shuffleDeck_start_def shuffleDeck_then_def
    shuffle_caught_def send_def click_speed_def handleShuffleSpeed_def render_of_def
    drawCard_start_def draw_exhausted_eq fire_hide_def clearTimer_def
    split: option.splits response.splits sum.splits callback.splits)

lemma shuffleSpeed_run: "shuffleSpeed (run conv es) = 1000 \<or> shuffleSpeed (run conv es) = 500"
proof (induction es rule: rev_induct)
  case Nil
  show ?case by (simp add: run_nil mounted_def send_def initial_def)
next
  case (snoc e es)
  then show ?case
    by (auto simp: run_snoc shuffleSpeed_step)
qed

lemma sessions_are_runs:
  "ready = run conv [DeckAnswer (Json new_deck)]"
  "drawing = run conv [DeckAnswer (Json new_deck), ClickDraw]"
  "spent = run no_conv [DeckAnswer (Json new_deck), ClickDraw, Tick 1, DrawAnswer (Json last_card)]"
  "stuck = run no_conv [DeckAnswer (Json new_deck), ClickDraw, Tick 1, DrawAnswer (Json no_list)]"
  by (simp_all add: run_def mounted_def controls_shown_def drawCard_start_def run_defs Let_def)

lemma one_timer_of_each_kind:
  "length (live_intervals (run conv es)) \<le> 1 \<and> length (pending_timeouts (run conv es)) \<le> 1"
  using timers_ok_run [of conv es]
  by (auto simp: intervals_ok_def timeouts_ok_def dest: only_held_length)

lemma toggles_one_timer: "length (live_intervals ((click_draw ^^ n) (run conv es))) \<le> 1"
proof -
  have "intervals_ok (run conv es)"
    using timers_ok_run [of conv es] by simp
  then have "intervals_ok ((click_draw ^^ n) (run conv es))"
    by (rule intervals_ok_toggles)
  then show ?thesis
    by (auto simp: intervals_ok_def dest: only_held_length)
qed

lemma settled_step: "settled s \<Longrightarrow> settled (step conv s e)"
proof (cases e)
  case (DeckAnswer resp)
  assume "settled s"
  with DeckAnswer show ?thesis
    by (auto simp: fetchDeck_then_def settled_rerender split: response.splits sum.splits)
      (simp_all add: settled_def page_throws_def)
next
  case ClickDraw
  assume "settled s"
  with ClickDraw show ?thesis
    by (simp add: click_draw_eq settled_def page_throws_def split: option.splits)
next
  case ClickShuffle
  assume "settled s"
  with ClickShuffle show ?thesis
    by (simp add: shuffleDeck_start_def send_def settled_def page_throws_def)
next
  case (ShuffleAnswer resp)
  assume "settled s"
  with ShuffleAnswer show ?thesis
    by (auto simp: shuffleDeck_then_def settled_rerender split: response.splits sum.splits)
      (simp_all add: shuffle_caught_def settled_def page_throws_def)
next
  case ClickSpeed
  assume "settled s"
  with ClickSpeed show ?thesis
    by (simp add: click_speed_def handleShuffleSpeed_def settled_def page_throws_def)
next
  case (Tick h)
  assume "settled s"
  with Tick show ?thesis
    by (simp add: drawCard_start_def draw_exhausted_eq send_def settled_def page_throws_def
        split: option.splits callback.splits)
next
  case (DrawAnswer resp)
  assume a: "settled s"
  from drawCard_then_cases [of conv resp s] a DrawAnswer show ?thesis
    by (auto simp: settled_rerender)
      (simp_all add: draw_caught_def draw_invalid_eq draw_empty_eq settled_def page_throws_def)
next
  case (HideFires h)
  assume "settled s"
  with HideFires show ?thesis
    by (simp add: fire_hide_def clearTimer_def settled_def page_throws_def split: option.splits)
qed

lemma settled_run: "settled (run conv es)"
proof (induction es rule: rev_induct)
  case Nil
  show ?case
    by (simp add: run_nil mounted_def send_def initial_def settled_def page_throws_def)
next
  case (snoc e es)
  then show ?case
    by (simp add: run_snoc settled_step)
qed

lemma list_all_without: "list_all P ts \<Longrightarrow> list_all P (without h ts)"
  by (cases h) (simp_all add: without_def list_all_iff)

lemma delays_step:
  assumes "list_all source_delay (timers s)"
  shows "list_all source_delay (timers (step conv s e))"
proof (cases e)
  case (DeckAnswer resp)
  with assms show ?thesis
    by (simp add: fetchDeck_then_def split: response.splits sum.splits)
next
  case ClickDraw
  with assms show ?thesis
    by (simp add: click_draw_eq list_all_without source_delay_def split: option.splits)
next
  case ClickShuffle
  with assms show ?thesis
    by (simp add: shuffleDeck_start_def send_def)
next
  case (ShuffleAnswer resp)
  with assms show ?thesis
    by (simp add: shuffleDeck_then_def shuffle_caught_def split: response.splits sum.splits)
next
  case ClickSpeed
  with assms show ?thesis
    by (simp add: click_speed_def handleShuffleSpeed_def)
next
  case (Tick h)
  with assms show ?thesis
    by (simp add: drawCard_start_def draw_exhausted_eq send_def list_all_without hide_timer_def source_delay_def
        split: option.splits callback.splits)
next
  case (DrawAnswer resp)
  from drawCard_then_cases [of conv resp s] assms DrawAnswer show ?thesis
    by (auto simp: draw_caught_def draw_invalid_eq draw_empty_eq list_all_without hide_timer_def source_delay_def)
next
  case (HideFires h)
  with assms show ?thesis
    by (simp add: fire_hide_def clearTimer_def list_all_without split: option.splits)
qed

lemma delays_run:
  "list_all source_delay (timers (run conv es))"
proof (induction es rule: rev_induct)
  case Nil
  show ?case
    by (simp add: run_nil mounted_def send_def initial_def)
next
  case (snoc e es)
  then show ?case
    by (simp add: run_snoc delays_step)
qed

lemma round_trip_iff_inv:
  "(polling_state (click_draw (click_draw s)) = polling_state s) = polling_inv s"
  by (cases "intervalRef s") (auto simp: click_draw_eq polling_state_def polling_inv_def)

section \<open>The claims\<close>

subsection \<open>C1: drawCard with no cards remaining\<close>

text \<open>
  Claim C1. In a state whose \<open>remaining\<close> is 0, a draw sends no request, stops the polling,
  shows \<open>Error: no cards remaining!\<close> and schedules the hiding of the message. The branch
  of lines 44 to 53 does all of this (\<open>exhausted_branch\<close>), but the test of line 43 reads
  the \<open>remaining\<close> of the render that created the function, and the repeating timer keeps
  calling the \<open>drawCard\<close> of the render in which the button was pressed (line 122). On
  the session below the deck had 52 cards then; after the answer with the last card
  \<open>remaining\<close> is 0 and the next tick still sends a request. The message shown is the one
  of the empty answer, not the one of line 44.
\<close>

theorem tick_after_last_card:
  "remaining spent = JNum 0 \<and> intervalRef spent = Some 1 \<and>
   timers spent =
     [\<lparr>t_id = 1, t_repeat = True, t_delay = 1000,
       t_callback = DrawCard \<lparr>r_deckId = JStr ''3p40paa87x90'', r_remaining = JNum 52,
                              r_shuffleSpeed = 1000\<rparr>\<rparr>] \<and>
   requests (tick no_conv 1 (Json no_card) spent) =
     requests spent @ [DrawOne (JStr ''3p40paa87x90'')] \<and>
   banner (tick no_conv 1 (Json no_card) spent) = Some ''Error: No cards available.'' \<and>
   requests (drawCard no_conv (render_of spent) (Json no_card) spent) = requests spent \<and>
   banner (drawCard no_conv (render_of spent) (Json no_card) spent) =
     Some ''Error: no cards remaining!''"
  by (simp add: run_defs Let_def)

subsection \<open>C2: the polling invariant\<close>

text \<open>
  Claim C2. The handle of the repeating timer is set exactly when \<open>isDrawing\<close> is true,
  after every operation. It holds after every operation but one (\<open>polling_inv_kept\<close>):
  lines 66 to 74 clear the handle and leave \<open>isDrawing\<close> as it was, where lines 46 and 79
  set it to false. While drawing, an answer without the card list leaves the handle unset
  and \<open>isDrawing\<close> true; an answer with an empty list does not. The states named here are
  runs of the component (\<open>sessions_are_runs\<close>).
\<close>

theorem invalid_response_breaks_polling_inv:
  "polling_inv drawing \<and> intervalRef drawing = Some 1 \<and>
   stuck = tick no_conv 1 (Json no_list) drawing \<and>
   intervalRef stuck = None \<and> isDrawing stuck = True \<and> \<not> polling_inv stuck \<and>
   polling_inv (tick no_conv 1 (Json no_card) drawing)"
  by (simp add: run_defs Let_def)

subsection \<open>C3: the three failing answers of a draw\<close>

text \<open>
  Claim C3. An answer without the card list and an answer with an empty list both stop
  the repeating timer and show a message; a failed request shows \<open>Failed to draw card.\<close>
  and leaves the timer running. On the session below the first two are as claimed and
  the failed request leaves the timer running, but its message is stored without being
  shown: lines 89 to 92 never set \<open>errorMessageVisible\<close>, and the page renders the message
  only under that flag (line 137).
\<close>

theorem failed_draw_not_shown:
  "banner drawing = None \<and>
   error (tick no_conv 1 Failed drawing) = Some ''Failed to draw card.'' \<and>
   banner (tick no_conv 1 Failed drawing) = None \<and>
   pending_timeouts (tick no_conv 1 Failed drawing) = [] \<and>
   intervalRef (tick no_conv 1 Failed drawing) = Some 1 \<and>
   live_intervals (tick no_conv 1 Failed drawing) = live_intervals drawing \<and>
   banner (tick no_conv 1 (Json no_list) drawing) = Some ''Error: Invalid API response.'' \<and>
   live_intervals (tick no_conv 1 (Json no_list) drawing) = [] \<and>
   banner (tick no_conv 1 (Json no_card) drawing) = Some ''Error: No cards available.'' \<and>
   live_intervals (tick no_conv 1 (Json no_card) drawing) = []"
  by (simp add: run_defs Let_def)

subsection \<open>C4: every failure shows its message for three seconds\<close>

text \<open>
  Claim C4. Every failure path shows an error message and hides it after 3000 ms, a new
  error replacing the pending hide timer. The three \<open>catch\<close> blocks (lines 30 to 33, 89 to
  92, 106 to 110) only store the message: nothing is shown and no hide timer is started,
  where the other three failure paths of \<open>drawCard\<close> do both. Under a banner that is still
  visible a caught error replaces the text and leaves the pending hide timer as it is.
  That at most one hide timer is pending holds in every run (\<open>one_timer_of_each_kind\<close>).
\<close>

theorem caught_errors_stay_hidden:
  "error (fetchDeck Failed initial) = Some ''Failed to fetch deck.'' \<and>
   banner (fetchDeck Failed initial) = None \<and>
   pending_timeouts (fetchDeck Failed initial) = [] \<and>
   error (click_shuffle Failed ready) = Some ''Failed to shuffle deck.'' \<and>
   banner (click_shuffle Failed ready) = None \<and>
   pending_timeouts (click_shuffle Failed ready) = [] \<and>
   error (drawCard no_conv (render_of ready) Failed ready) = Some ''Failed to draw card.'' \<and>
   banner (drawCard no_conv (render_of ready) Failed ready) = None \<and>
   pending_timeouts (drawCard no_conv (render_of ready) Failed ready) = [] \<and>
   banner (drawCard no_conv (render_of ready) (Json no_card) ready) = Some ''Error: No cards available.'' \<and>
   pending_timeouts (drawCard no_conv (render_of ready) (Json no_card) ready) = [hide_timer 1] \<and>
   banner stuck = Some ''Error: Invalid API response.'' \<and>
   pending_timeouts stuck = [hide_timer 2] \<and>
   banner (click_shuffle Failed stuck) = Some ''Failed to shuffle deck.'' \<and>
   pending_timeouts (click_shuffle Failed stuck) = [hide_timer 2]"
  by (simp add: run_defs Let_def)

subsection \<open>C5: a successful draw takes both values from the answer\<close>

text \<open>
  Claim C5. When \<open>drawCard\<close> reaches the network and the answer holds a card list whose
  first card is an object, the card image becomes the \<open>image\<close> of that card and
  \<open>remaining\<close> becomes the \<open>remaining\<close> of the answer, whatever it was before.
\<close>

theorem draw_success_values:
  assumes "r_remaining r \<noteq> JNum 0" and "field kvs ''cards'' = JArr (JObj c # cs)"
  shows "cardImage (drawCard conv r (Json (JObj kvs)) s) = field c ''image'' \<and>
         remaining (drawCard conv r (Json (JObj kvs)) s) = field kvs ''remaining''"
  by (simp add: draw_success_eq [OF assms])

theorem draw_success_values_witness:
  "r_remaining (render_of ready) \<noteq> JNum 0 \<and>
   cardImage (drawCard no_conv (render_of ready) (Json one_card) drawing) = JStr ''6H.png'' \<and>
   remaining (drawCard no_conv (render_of ready) (Json one_card) drawing) = JNum 51"
proof -
  have a: "r_remaining (render_of ready) \<noteq> JNum 0"
    by (simp add: run_defs)
  have b: "field [(''success'', JBool True), (''deck_id'', JStr ''3p40paa87x90''),
                  (''cards'', JArr [JObj [(''code'', JStr ''6H''), (''image'', JStr ''6H.png'')]]),
                  (''remaining'', JNum 51)] ''cards''
           = JArr (JObj [(''code'', JStr ''6H''), (''image'', JStr ''6H.png'')] # [])"
    by (simp add: field_def)
  show ?thesis
    using draw_success_values [OF a b, of no_conv drawing] a
    by (simp add: one_card_def field_def)
qed

subsection \<open>C6: shuffleDeck and the busy flag\<close>

text \<open>
  Claim C6. \<open>shuffleDeck\<close> sets \<open>isShuffling\<close> before the request, on success takes
  \<open>remaining\<close> from the answer and clears the card image, on failure shows
  \<open>Failed to shuffle deck.\<close>, and in both cases ends with \<open>isShuffling\<close> false
  (\<open>shuffle_busy_flag\<close>). On failure the message is stored but not shown, since line 108
  sets the text only: after a failed shuffle of a fresh session the banner is absent.
\<close>

theorem failed_shuffle_not_shown:
  "isShuffling (shuffleDeck_start (render_of ready) ready) = True \<and>
   requests (shuffleDeck_start (render_of ready) ready) = [NewDeck, Shuffle (JStr ''3p40paa87x90'')] \<and>
   isShuffling (click_shuffle Failed ready) = False \<and>
   error (click_shuffle Failed ready) = Some ''Failed to shuffle deck.'' \<and>
   errorMessageVisible (click_shuffle Failed ready) = False \<and>
   banner (click_shuffle Failed ready) = None"
  by (simp add: run_defs Let_def)

subsection \<open>C7: toggling the polling twice\<close>

text \<open>
  Claim C7. Two consecutive clicks on the start and stop button give back the polling
  state (handle present or absent, and the flag), from every starting polling state; and
  after any sequence of clicks at most one repeating timer is alive. \<open>handleDraw\<close>
  branches on the handle alone (line 117), so the round trip holds exactly from the states
  in which the handle is set when \<open>isDrawing\<close> is true (\<open>round_trip_iff_inv\<close>), and the bound
  on the timers holds in every run (\<open>toggles_one_timer\<close>). The component leaves those
  states through lines 66 to 74 (claim C2): in \<open>stuck\<close>, a run by \<open>sessions_are_runs\<close>,
  there is no handle and \<open>isDrawing\<close> is true, and two clicks end with \<open>isDrawing\<close>
  false.
\<close>

theorem toggle_twice_from_stuck:
  "polling_state stuck = (False, True) \<and>
   polling_state (click_draw (click_draw stuck)) = (False, False)"
  by (simp add: run_defs Let_def)

subsection \<open>C8: the shuffle speed preference\<close>

text \<open>
  Claim C8. In every state a run reaches the preference is 1000 or 500;
  \<open>handleShuffleSpeed\<close> takes it to the other value and two clicks restore the state. The
  preference reaches no timer: the click leaves the timer table alone, the repeating timer
  that \<open>handleDraw\<close> starts has the delay 1000 whatever the preference is, and every timer in
  the table of every run has the delay the source writes, 1000 when it repeats and 3000
  when it hides the message.
\<close>

theorem speed_toggle:
  "let s = run conv es in
     (shuffleSpeed s = 1000 \<or> shuffleSpeed s = 500) \<and>
     shuffleSpeed (click_speed s) = (if shuffleSpeed s = 1000 then 500 else 1000) \<and>
     click_speed (click_speed s) = s \<and>
     timers (click_speed s) = timers s \<and>
     timers (click_draw s) =
       (if intervalRef s = None
        then timers s @ [\<lparr>t_id = next_timer s, t_repeat = True, t_delay = 1000,
                           t_callback = DrawCard (render_of s)\<rparr>]
        else without (intervalRef s) (timers s)) \<and>
     map t_delay (timers (click_draw (s\<lparr>shuffleSpeed := v\<rparr>))) = map t_delay (timers (click_draw s)) \<and>
     list_all source_delay (timers s) \<and>
     list_all source_delay (timers (click_draw s)) \<and>
     list_all source_delay (timers (click_draw (click_speed s)))"
proof -
  define s where "s = run conv es"
  have a: "shuffleSpeed s = 1000 \<or> shuffleSpeed s = 500"
    unfolding s_def by (rule shuffleSpeed_run)
  have b: "shuffleSpeed (click_speed s) = (if shuffleSpeed s = 1000 then 500 else 1000)"
    by (simp add: click_speed_def handleShuffleSpeed_def render_of_def)
  have c: "click_speed (click_speed s) = s"
    using a by (auto simp: click_speed_def handleShuffleSpeed_def render_of_def)
  have d: "timers (click_speed s) = timers s"
    by (simp add: click_speed_def handleShuffleSpeed_def)
  have e: "timers (click_draw s) =
       (if intervalRef s = None
        then timers s @ [\<lparr>t_id = next_timer s, t_repeat = True, t_delay = 1000,
                           t_callback = DrawCard (render_of s)\<rparr>]
        else without (intervalRef s) (timers s))"
    by (cases "intervalRef s") (simp_all add: click_draw_eq)
  have f: "map t_delay (timers (click_draw (s\<lparr>shuffleSpeed := v\<rparr>))) = map t_delay (timers (click_draw s))"
    by (cases "intervalRef s") (simp_all add: click_draw_eq)
  have g: "list_all source_delay (timers s)"
    unfolding s_def by (rule delays_run)
  have h: "list_all source_delay (timers (click_draw s'))" if "timers s' = timers s" for s'
    using g that
    by (cases "intervalRef s'") (simp_all add: click_draw_eq list_all_without source_delay_def)
  have i: "list_all source_delay (timers (click_draw s))"
    by (rule h) simp
  have j: "list_all source_delay (timers (click_draw (click_speed s)))"
    by (rule h) (rule d)
  show ?thesis
    using a b c d e f g i j by (simp add: s_def Let_def)
qed

subsection \<open>C9: what a successful draw leaves alone\<close>

text \<open>
  Claim C9. A successful draw changes the card image and \<open>remaining\<close> (and sends its
  request) and nothing else: the error text, its visibility, the pending hide timer, the
  repeating timer and its handle, \<open>isDrawing\<close> and \<open>isShuffling\<close> are as before, so a
  banner that was visible stays until its own timer fires. The answer is one the page can
  render, as those of the service are: its \<open>remaining\<close> can be shown (a count) and the
  image of its card can be written into \<open>src\<close> (a URL). With an object as \<open>remaining\<close>
  the next render throws on line 156 and the page is gone (\<open>draw_success_unmounts\<close>). The
  state before is settled, as every state of a run is (\<open>settled_run\<close>).
\<close>

theorem draw_success_frame:
  assumes "r_remaining r \<noteq> JNum 0" and "field kvs ''cards'' = JArr (JObj c # cs)"
    and "renderable (field kvs ''remaining'')" and "coercible (field c ''image'')"
    and "settled s"
  shows "let s' = drawCard conv r (Json (JObj kvs)) s in
           s' = s\<lparr>cardImage := field c ''image'', remaining := field kvs ''remaining'',
                   requests := requests s @ [DrawOne (r_deckId r)]\<rparr> \<and>
           error s' = error s \<and> errorMessageVisible s' = errorMessageVisible s \<and>
           banner s' = banner s \<and>
           errorTimeoutRef s' = errorTimeoutRef s \<and> timers s' = timers s \<and>
           intervalRef s' = intervalRef s \<and> isDrawing s' = isDrawing s \<and>
           isShuffling s' = isShuffling s"
proof -
  have "\<not> page_throws (s\<lparr>requests := requests s @ [DrawOne (r_deckId r)],
                          cardImage := field c ''image'', remaining := field kvs ''remaining''\<rparr>)"
    using assms(3,4) by (simp add: page_throws_def)
  then have eq: "drawCard conv r (Json (JObj kvs)) s =
      s\<lparr>requests := requests s @ [DrawOne (r_deckId r)],
        cardImage := field c ''image'', remaining := field kvs ''remaining''\<rparr>"
    by (simp add: draw_success_eq [OF assms(1,2)] rerender_id)
  have "banner (s\<lparr>requests := requests s @ [DrawOne (r_deckId r)],
                 cardImage := field c ''image'', remaining := field kvs ''remaining''\<rparr>) = banner s"
    using assms(3,4,5) by (auto simp: banner_def page_throws_def settled_def)
  then show ?thesis
    by (simp add: eq Let_def)
qed

theorem draw_success_frame_witness:
  "r_remaining (render_of ready) \<noteq> JNum 0 \<and> renderable (JNum 51) \<and>
   coercible (JStr ''6H.png'') \<and> settled stuck \<and>
   drawCard no_conv (render_of ready) (Json one_card) stuck =
     stuck\<lparr>cardImage := JStr ''6H.png'', remaining := JNum 51,
           requests := requests stuck @ [DrawOne (JStr ''3p40paa87x90'')]\<rparr> \<and>
   banner (drawCard no_conv (render_of ready) (Json one_card) stuck) = Some ''Error: Invalid API response.'' \<and>
   timers (drawCard no_conv (render_of ready) (Json one_card) stuck) = [hide_timer 2]"
proof -
  have a: "r_remaining (render_of ready) \<noteq> JNum 0"
    by (simp add: run_defs)
  have b: "field [(''success'', JBool True), (''deck_id'', JStr ''3p40paa87x90''),
                  (''cards'', JArr [JObj [(''code'', JStr ''6H''), (''image'', JStr ''6H.png'')]]),
                  (''remaining'', JNum 51)] ''cards''
           = JArr (JObj [(''code'', JStr ''6H''), (''image'', JStr ''6H.png'')] # [])"
    by (simp add: field_def)
  have r: "renderable (field [(''success'', JBool True), (''deck_id'', JStr ''3p40paa87x90''),
                  (''cards'', JArr [JObj [(''code'', JStr ''6H''), (''image'', JStr ''6H.png'')]]),
                  (''remaining'', JNum 51)] ''remaining'')"
    by (simp add: field_def)
  have im: "coercible (field [(''code'', JStr ''6H''), (''image'', JStr ''6H.png'')] ''image'')"
    by (simp add: field_def)
  have st: "settled stuck"
    by (simp add: run_defs Let_def)
  have c: "banner stuck = Some ''Error: Invalid API response.''" and d: "timers stuck = [hide_timer 2]"
    and e: "r_deckId (render_of ready) = JStr ''3p40paa87x90''"
    by (simp_all add: run_defs Let_def)
  note t = draw_success_frame [OF a b r im st, of no_conv, unfolded Let_def]
  have f: "drawCard no_conv (render_of ready) (Json one_card) stuck =
     stuck\<lparr>cardImage := JStr ''6H.png'', remaining := JNum 51,
           requests := requests stuck @ [DrawOne (JStr ''3p40paa87x90'')]\<rparr>"
    using t [THEN conjunct1] e by (simp add: one_card_def field_def)
  have g: "banner (drawCard no_conv (render_of ready) (Json one_card) stuck) = banner stuck"
    unfolding one_card_def using t by blast
  have h: "timers (drawCard no_conv (render_of ready) (Json one_card) stuck) = timers stuck"
    unfolding one_card_def using t by blast
  show ?thesis
    using a st f g h c d by simp
qed

subsection \<open>C10: what shuffleDeck leaves alone\<close>

text \<open>
  Claim C10. On either path \<open>shuffleDeck\<close> leaves the handle of the repeating timer,
  \<open>isDrawing\<close>, the timer table and the deck identifier as they were, also when its answer
  arrives in a later state; when the request fails, or the answer is \<open>null\<close>, it leaves
  \<open>remaining\<close> and the card image as they were too.
\<close>

theorem shuffle_frame:
  "intervalRef (shuffleDeck r resp s) = intervalRef s \<and>
   isDrawing (shuffleDeck r resp s) = isDrawing s \<and>
   timers (shuffleDeck r resp s) = timers s \<and>
   deckId (shuffleDeck r resp s) = deckId s \<and>
   intervalRef (shuffleDeck_then resp s) = intervalRef s \<and>
   isDrawing (shuffleDeck_then resp s) = isDrawing s \<and>
   timers (shuffleDeck_then resp s) = timers s \<and>
   deckId (shuffleDeck_then resp s) = deckId s \<and>
   remaining (shuffleDeck r Failed s) = remaining s \<and>
   cardImage (shuffleDeck r Failed s) = cardImage s \<and>
   remaining (shuffleDeck r (Json JNull) s) = remaining s \<and>
   cardImage (shuffleDeck r (Json JNull) s) = cardImage s"
  by (simp add: shuffleDeck_def shuffleDeck_start_def shuffleDeck_then_def shuffle_caught_def
      send_def split: response.splits sum.splits)

end
